theory Spec2Isabelle
  imports Main
begin

section \<open>Shared pointers and hash containers\<close>

text \<open>
  The library passes every object around as a \<open>std::shared_ptr\<close>. The pointees
  (\<open>State\<close>, \<open>Symbol\<close>, the grammar objects) are immutable after construction: their only
  field \<open>value_\<close> is private and has no setter. A pointer is therefore modelled as its
  address together with the object it points to. Equality of two pointers
  (\<open>shared_ptr::operator==\<close>, which \<open>std::unordered_set<StatePtr>\<close> uses together with
  \<open>std::hash<shared_ptr>\<close>) is HOL equality of these pairs; equality of the pointees
  (\<open>*p == *q\<close>) is a separate operation on \<open>deref\<close>.
\<close>

datatype 'a shared_ptr = SharedPtr (addr: nat) (deref: 'a)

text \<open>
  A \<open>std::unordered_set\<close> is modelled as the list of its elements in iteration order.
  \<open>insert\<close> leaves the container alone when the element is already present. Where a new
  element lands in the iteration order is not fixed by the C++ standard; the model puts
  it last, and the properties proved below speak about the \<open>set\<close> of such a list.
\<close>

definition set_insert :: "'a \<Rightarrow> 'a list \<Rightarrow> 'a list" where
  "set_insert x xs = (if x \<in> set xs then xs else xs @ [x])"

text \<open>\<open>next_states.insert(states.begin(), states.end())\<close>: insert a range, one by one.\<close>

fun insert_range :: "'a list \<Rightarrow> 'a list \<Rightarrow> 'a list" where
  "insert_range [] acc = acc"
| "insert_range (x # xs) acc = insert_range xs (set_insert x acc)"

lemma set_set_insert: "set (set_insert x xs) = insert x (set xs)"
  by (auto simp: set_insert_def)



section \<open>Finite automaton primitives\<close>

text \<open>\<open>class State\<close> (state.h): one field \<open>value_\<close>; \<open>operator==\<close> compares it.\<close>

datatype State = State (State_value: string)

definition State_eq :: "State \<Rightarrow> State \<Rightarrow> bool" where
  "State_eq x other = (State_value x = State_value other)"

text \<open>
  \<open>class Symbol\<close> (symbol.h) and its subclass \<open>Epsilon\<close> (epsilon.h). The constructor of the
  datatype is the dynamic class of the object. \<open>Epsilon()\<close> calls \<open>Symbol("\<epsilon>")\<close>, so its
  \<open>value_\<close> is the two bytes of the UTF-8 encoding of the Greek letter.
\<close>

definition epsilon_text :: string where
  "epsilon_text = [CHR 0xCE, CHR 0xB5]"

datatype Symbol = Symbol string | Epsilon

fun Symbol_value :: "Symbol \<Rightarrow> string" where
  "Symbol_value (Symbol v) = v"
| "Symbol_value Epsilon = epsilon_text"

text \<open>\<open>Symbol::operator==(const Symbol&)\<close>: not virtual, compares \<open>value_\<close>.\<close>

definition Symbol_eq :: "Symbol \<Rightarrow> Symbol \<Rightarrow> bool" where
  "Symbol_eq x other = (Symbol_value x = Symbol_value other)"

type_synonym StatePtr = "State shared_ptr"
type_synonym SymbolPtr = "Symbol shared_ptr"


section \<open>TransitionFunction (deterministic)\<close>

text \<open>
  \<open>transitions_\<close> is an \<open>unordered_map\<close> from pairs of pointers to a pointer with the
  custom \<open>PairHash\<close> and \<open>PairEqual\<close>: two keys are the same key when the pointed-to state
  and the pointed-to symbol compare equal with \<open>State::operator==\<close> and
  \<open>Symbol::operator==\<close>. It is modelled as an association list that keeps the key
  pointers as they were first inserted. \<open>nullptr\<close> results are \<open>None\<close>; the pointers
  that callers pass are non-null.
\<close>

type_synonym TransitionFunction = "((StatePtr \<times> SymbolPtr) \<times> StatePtr) list"

definition PairEqual :: "StatePtr \<times> SymbolPtr \<Rightarrow> StatePtr \<times> SymbolPtr \<Rightarrow> bool" where
  "PairEqual p1 p2 =
     (State_eq (deref (fst p1)) (deref (fst p2)) \<and> Symbol_eq (deref (snd p1)) (deref (snd p2)))"

text \<open>\<open>transitions_.find(key)\<close>.\<close>

fun map_find :: "(StatePtr \<times> SymbolPtr) \<Rightarrow> ((StatePtr \<times> SymbolPtr) \<times> 'v) list \<Rightarrow> 'v option" where
  "map_find k [] = None"
| "map_find k ((k', v) # rest) = (if PairEqual k' k then Some v else map_find k rest)"

text \<open>\<open>transitions_[key] = v\<close>: overwrite the value of an existing key, or add the entry.\<close>

fun map_assign :: "(StatePtr \<times> SymbolPtr) \<Rightarrow> 'v \<Rightarrow> ((StatePtr \<times> SymbolPtr) \<times> 'v) list
    \<Rightarrow> ((StatePtr \<times> SymbolPtr) \<times> 'v) list" where
  "map_assign k v [] = [(k, v)]"
| "map_assign k v ((k', v') # rest) =
     (if PairEqual k' k then (k', v) # rest else (k', v') # map_assign k v rest)"

definition TF_add_transition ::
    "StatePtr \<Rightarrow> SymbolPtr \<Rightarrow> StatePtr \<Rightarrow> TransitionFunction \<Rightarrow> TransitionFunction" where
  "TF_add_transition from_state symbol to_state transitions =
     map_assign (from_state, symbol) to_state transitions"

definition get_next_state :: "TransitionFunction \<Rightarrow> StatePtr \<Rightarrow> SymbolPtr \<Rightarrow> StatePtr option" where
  "get_next_state transitions from_state symbol = map_find (from_state, symbol) transitions"

text \<open>A sequence of \<open>add_transition\<close> calls, oldest first.\<close>

fun TF_add_transitions ::
    "(StatePtr \<times> SymbolPtr \<times> StatePtr) list \<Rightarrow> TransitionFunction \<Rightarrow> TransitionFunction" where
  "TF_add_transitions [] transitions = transitions"
| "TF_add_transitions ((f, s, t) # calls) transitions =
     TF_add_transitions calls (TF_add_transition f s t transitions)"

text \<open>
  The target of the most recent call in \<open>calls\<close> whose (state, symbol) pair is the key
  \<open>k\<close>, if there is one.
\<close>

fun latest_target :: "(StatePtr \<times> SymbolPtr) \<Rightarrow> (StatePtr \<times> SymbolPtr \<times> StatePtr) list
    \<Rightarrow> StatePtr option" where
  "latest_target k [] = None"
| "latest_target k ((f, s, t) # calls) =
     (case latest_target k calls of
        Some t' \<Rightarrow> Some t'
      | None \<Rightarrow> (if PairEqual (f, s) k then Some t else None))"


section \<open>NondeterministicTransitionFunction\<close>

text \<open>
  The same map shape, with a set of target pointers as value.
  \<open>transitions_[{from_state, symbol}].insert(to_state)\<close> creates the empty set for a new
  key and inserts into the set of an existing one.
\<close>

type_synonym NondeterministicTransitionFunction = "((StatePtr \<times> SymbolPtr) \<times> StatePtr list) list"

definition get_next_states ::
    "NondeterministicTransitionFunction \<Rightarrow> StatePtr \<Rightarrow> SymbolPtr \<Rightarrow> StatePtr list" where
  "get_next_states transitions from_state symbol =
     (case map_find (from_state, symbol) transitions of Some targets \<Rightarrow> targets | None \<Rightarrow> [])"

definition NTF_add_transition :: "StatePtr \<Rightarrow> SymbolPtr \<Rightarrow> StatePtr
    \<Rightarrow> NondeterministicTransitionFunction \<Rightarrow> NondeterministicTransitionFunction" where
  "NTF_add_transition from_state symbol to_state transitions =
     map_assign (from_state, symbol)
       (set_insert to_state (get_next_states transitions from_state symbol)) transitions"


section \<open>NondeterministicFiniteAutomaton\<close>

text \<open>
  The fields of the class, without the trailing underscore of the C++ names. The
  subclasses extend the record, so the inherited member functions below work on every
  extension.
\<close>

record NondeterministicFiniteAutomaton =
  states :: "StatePtr list"
  input_symbols :: "SymbolPtr list"
  transition_function :: NondeterministicTransitionFunction
  start_states :: "StatePtr list"
  final_states :: "StatePtr list"


text \<open>The inner loop of \<open>accepts\<close>: over the current states, collecting into \<open>next_states\<close>.\<close>

fun next_states_loop :: "NondeterministicTransitionFunction \<Rightarrow> SymbolPtr \<Rightarrow> StatePtr list
    \<Rightarrow> StatePtr list \<Rightarrow> StatePtr list" where
  "next_states_loop tf symbol [] next_states = next_states"
| "next_states_loop tf symbol (state # rest) next_states =
     next_states_loop tf symbol rest (insert_range (get_next_states tf state symbol) next_states)"

text \<open>The outer loop over the word.\<close>

fun word_loop :: "NondeterministicTransitionFunction \<Rightarrow> StatePtr list \<Rightarrow> SymbolPtr list
    \<Rightarrow> StatePtr list" where
  "word_loop tf current_states [] = current_states"
| "word_loop tf current_states (symbol # word) =
     word_loop tf (next_states_loop tf symbol current_states []) word"

text \<open>The closing loop: return true at the first current state found in \<open>final_states_\<close>.\<close>

fun any_final :: "StatePtr list \<Rightarrow> StatePtr list \<Rightarrow> bool" where
  "any_final finals [] = False"
| "any_final finals (state # rest) = (if state \<in> set finals then True else any_final finals rest)"

definition NFA_accepts :: "'a NondeterministicFiniteAutomaton_scheme \<Rightarrow> SymbolPtr list \<Rightarrow> bool" where
  "NFA_accepts A word =
     any_final (final_states A) (word_loop (transition_function A) (start_states A) word)"

definition NFA_add_transition :: "StatePtr \<Rightarrow> SymbolPtr \<Rightarrow> StatePtr
    \<Rightarrow> 'a NondeterministicFiniteAutomaton_scheme \<Rightarrow> 'a NondeterministicFiniteAutomaton_scheme" where
  "NFA_add_transition from_state symbol to_state A =
     A\<lparr>states := set_insert to_state (set_insert from_state (states A)),
       input_symbols := set_insert symbol (input_symbols A),
       transition_function := NTF_add_transition from_state symbol to_state (transition_function A)\<rparr>"

definition add_start_state :: "StatePtr
    \<Rightarrow> 'a NondeterministicFiniteAutomaton_scheme \<Rightarrow> 'a NondeterministicFiniteAutomaton_scheme" where
  "add_start_state state A =
     A\<lparr>states := set_insert state (states A), start_states := set_insert state (start_states A)\<rparr>"

definition add_final_state :: "StatePtr
    \<Rightarrow> 'a NondeterministicFiniteAutomaton_scheme \<Rightarrow> 'a NondeterministicFiniteAutomaton_scheme" where
  "add_final_state state A =
     A\<lparr>states := set_insert state (states A), final_states := set_insert state (final_states A)\<rparr>"

definition accepts_epsilon :: "'a NondeterministicFiniteAutomaton_scheme \<Rightarrow> bool" where
  "accepts_epsilon A = any_final (final_states A) (start_states A)"

text \<open>
  \<open>FiniteAutomaton::accepts(const std::vector<std::string>&)\<close> allocates one \<open>Symbol\<close>
  per string; \<open>a\<close> is the address the allocator hands out first.
\<close>

fun make_symbols :: "nat \<Rightarrow> string list \<Rightarrow> SymbolPtr list" where
  "make_symbols a [] = []"
| "make_symbols a (symbol_str # word) = SharedPtr a (Symbol symbol_str) # make_symbols (Suc a) word"


section \<open>DeterministicFiniteAutomaton\<close>

record DeterministicFiniteAutomaton = NondeterministicFiniteAutomaton +
  transition_function_dfa :: TransitionFunction

text \<open>
  The constructor passes no transition function and no start states to the base class;
  a non-null start state is inserted into \<open>start_states_\<close> and into \<open>states_\<close>.
\<close>

definition DFA_new :: "StatePtr list \<Rightarrow> SymbolPtr list \<Rightarrow> TransitionFunction option
    \<Rightarrow> StatePtr option \<Rightarrow> StatePtr list \<Rightarrow> DeterministicFiniteAutomaton" where
  "DFA_new sts syms tf start finals =
     \<lparr>states = (case start of Some s \<Rightarrow> set_insert s sts | None \<Rightarrow> sts),
      input_symbols = syms,
      transition_function = [],
      start_states = (case start of Some s \<Rightarrow> [s] | None \<Rightarrow> []),
      final_states = finals,
      transition_function_dfa = (case tf of Some t \<Rightarrow> t | None \<Rightarrow> [])\<rparr>"

text \<open>The loop of \<open>accepts\<close>; \<open>None\<close> is the early \<open>return false\<close> on a null next state.\<close>

fun DFA_run :: "TransitionFunction \<Rightarrow> StatePtr \<Rightarrow> SymbolPtr list \<Rightarrow> StatePtr option" where
  "DFA_run tf current_state [] = Some current_state"
| "DFA_run tf current_state (symbol # word) =
     (case get_next_state tf current_state symbol of
        None \<Rightarrow> None
      | Some next_state \<Rightarrow> DFA_run tf next_state word)"

definition DFA_accepts :: "DeterministicFiniteAutomaton \<Rightarrow> SymbolPtr list \<Rightarrow> bool" where
  "DFA_accepts D word =
     (case start_states D of
        [] \<Rightarrow> False
      | start # _ \<Rightarrow>
          (case DFA_run (transition_function_dfa D) start word of
             None \<Rightarrow> False
           | Some current_state \<Rightarrow> current_state \<in> set (final_states D)))"

definition DFA_accepts_strings :: "nat \<Rightarrow> DeterministicFiniteAutomaton \<Rightarrow> string list \<Rightarrow> bool" where
  "DFA_accepts_strings a D word = DFA_accepts D (make_symbols a word)"

definition DFA_add_transition :: "StatePtr \<Rightarrow> SymbolPtr \<Rightarrow> StatePtr
    \<Rightarrow> DeterministicFiniteAutomaton \<Rightarrow> DeterministicFiniteAutomaton" where
  "DFA_add_transition from_state symbol to_state D =
     D\<lparr>states := set_insert to_state (set_insert from_state (states D)),
       input_symbols := set_insert symbol (input_symbols D),
       transition_function_dfa := TF_add_transition from_state symbol to_state (transition_function_dfa D)\<rparr>"

definition set_start_state :: "StatePtr \<Rightarrow> DeterministicFiniteAutomaton \<Rightarrow> DeterministicFiniteAutomaton" where
  "set_start_state state D = D\<lparr>states := set_insert state (states D), start_states := [state]\<rparr>"

definition start_state :: "DeterministicFiniteAutomaton \<Rightarrow> StatePtr option" where
  "start_state D = (case start_states D of [] \<Rightarrow> None | s # _ \<Rightarrow> Some s)"

definition is_complete :: "DeterministicFiniteAutomaton \<Rightarrow> bool" where
  "is_complete D =
     list_all (\<lambda>state. list_all (\<lambda>symbol. get_next_state (transition_function_dfa D) state symbol \<noteq> None)
                 (input_symbols D))
       (states D)"

text \<open>The loops of \<open>make_complete\<close>: fill the missing transitions, then the sink's self-loops.\<close>

fun fill_symbols :: "StatePtr \<Rightarrow> SymbolPtr list \<Rightarrow> StatePtr \<Rightarrow> TransitionFunction \<Rightarrow> TransitionFunction" where
  "fill_symbols state [] sink_state tf = tf"
| "fill_symbols state (symbol # rest) sink_state tf =
     fill_symbols state rest sink_state
       (if get_next_state tf state symbol = None then TF_add_transition state symbol sink_state tf
        else tf)"

fun fill_states :: "StatePtr list \<Rightarrow> SymbolPtr list \<Rightarrow> StatePtr \<Rightarrow> TransitionFunction \<Rightarrow> TransitionFunction" where
  "fill_states [] symbols sink_state tf = tf"
| "fill_states (state # rest) symbols sink_state tf =
     fill_states rest symbols sink_state (fill_symbols state symbols sink_state tf)"

fun sink_loops :: "SymbolPtr list \<Rightarrow> StatePtr \<Rightarrow> TransitionFunction \<Rightarrow> TransitionFunction" where
  "sink_loops [] sink_state tf = tf"
| "sink_loops (symbol # rest) sink_state tf =
     sink_loops rest sink_state (TF_add_transition sink_state symbol sink_state tf)"

text \<open>
  \<open>make_complete\<close>; \<open>a\<close> is the address of the newly allocated sink state. The value
  returned is the new automaton. (In the C++ the copy shares the \<open>TransitionFunction\<close>
  object with the receiver, so for an incomplete receiver the added transitions are
  visible through the receiver as well; a complete receiver is copied and nothing is
  written.)
\<close>

definition make_complete :: "nat \<Rightarrow> DeterministicFiniteAutomaton \<Rightarrow> DeterministicFiniteAutomaton" where
  "make_complete a D =
     (if is_complete D then D
      else
        let sink_state = SharedPtr a (State ''sink'');
            sts = set_insert sink_state (states D)
        in D\<lparr>states := sts,
             transition_function_dfa :=
               sink_loops (input_symbols D) sink_state
                 (fill_states sts (input_symbols D) sink_state (transition_function_dfa D))\<rparr>)"

text \<open>The loop of \<open>complement\<close> that makes every non-final state final.\<close>

fun add_non_final :: "StatePtr list \<Rightarrow> StatePtr list \<Rightarrow> DeterministicFiniteAutomaton
    \<Rightarrow> DeterministicFiniteAutomaton" where
  "add_non_final [] finals result = result"
| "add_non_final (state # rest) finals result =
     add_non_final rest finals
       (if state \<notin> set finals then add_final_state state result else result)"

definition complement :: "nat \<Rightarrow> DeterministicFiniteAutomaton \<Rightarrow> DeterministicFiniteAutomaton" where
  "complement a D =
     (let complete_dfa = make_complete a D;
          result = DFA_new (states complete_dfa) (input_symbols complete_dfa)
                     (Some (transition_function_dfa complete_dfa)) (start_state complete_dfa) []
      in add_non_final (states complete_dfa) (final_states complete_dfa) result)"

text \<open>
  The automaton of the documentation and of the demonstration program, assembled with the
  builder operations in the order they are called there.
\<close>

definition q0 :: StatePtr where "q0 = SharedPtr 0 (State ''q0'')"
definition q1 :: StatePtr where "q1 = SharedPtr 1 (State ''q1'')"
definition q2 :: StatePtr where "q2 = SharedPtr 2 (State ''q2'')"
definition sym_a :: SymbolPtr where "sym_a = SharedPtr 3 (Symbol ''a'')"
definition sym_b :: SymbolPtr where "sym_b = SharedPtr 4 (Symbol ''b'')"

definition example_dfa :: DeterministicFiniteAutomaton where
  "example_dfa =
     DFA_add_transition q2 sym_b q0
       (DFA_add_transition q2 sym_a q1
         (DFA_add_transition q1 sym_b q2
           (DFA_add_transition q1 sym_a q1
             (DFA_add_transition q0 sym_b q0
               (DFA_add_transition q0 sym_a q1
                 (add_final_state q2
                   (set_start_state q0 (DFA_new [] [] None None []))))))))"




section \<open>Acceptance as the specification words it\<close>




section \<open>The state-set invariant and words over the alphabet\<close>

text \<open>The states that occur in a transition function: sources (key pointers) and targets.\<close>

definition TF_states :: "TransitionFunction \<Rightarrow> StatePtr list" where
  "TF_states tf = concat (map (\<lambda>((from_state, symbol), to_state). [from_state, to_state]) tf)"

definition NTF_states :: "NondeterministicTransitionFunction \<Rightarrow> StatePtr list" where
  "NTF_states tf = concat (map (\<lambda>((from_state, symbol), targets). from_state # targets) tf)"

text \<open>
  Every state in the transition relation, in the start set and in the final set is an
  element of \<open>states_\<close> (as the container decides membership: the same pointer).
\<close>

definition NFA_invariant :: "'a NondeterministicFiniteAutomaton_scheme \<Rightarrow> bool" where
  "NFA_invariant A =
     list_all (\<lambda>state. state \<in> set (states A))
       (NTF_states (transition_function A) @ start_states A @ final_states A)"

definition DFA_invariant :: "DeterministicFiniteAutomaton \<Rightarrow> bool" where
  "DFA_invariant D =
     (NFA_invariant D
      \<and> list_all (\<lambda>state. state \<in> set (states D)) (TF_states (transition_function_dfa D)))"



section \<open>EpsilonNFA\<close>

record EpsilonNFA = NondeterministicFiniteAutomaton +
  epsilon :: SymbolPtr

text \<open>
  The constructor forwards to the base class and allocates the member \<open>epsilon_\<close>; \<open>a\<close> is
  the address of that \<open>Epsilon\<close> object.
\<close>

definition EpsilonNFA_new :: "nat \<Rightarrow> StatePtr list \<Rightarrow> SymbolPtr list
    \<Rightarrow> NondeterministicTransitionFunction option \<Rightarrow> StatePtr list \<Rightarrow> StatePtr list \<Rightarrow> EpsilonNFA" where
  "EpsilonNFA_new a sts syms tf starts finals =
     \<lparr>states = sts, input_symbols = syms,
      transition_function = (case tf of Some t \<Rightarrow> t | None \<Rightarrow> []),
      start_states = starts, final_states = finals,
      epsilon = SharedPtr a Epsilon\<rparr>"

definition add_epsilon_transition :: "StatePtr \<Rightarrow> StatePtr \<Rightarrow> EpsilonNFA \<Rightarrow> EpsilonNFA" where
  "add_epsilon_transition from_state to_state A =
     A\<lparr>states := set_insert to_state (set_insert from_state (states A)),
       transition_function := NTF_add_transition from_state (epsilon A) to_state (transition_function A)\<rparr>"

text \<open>The remaining members are placeholders in the source and are modelled as they stand.\<close>

definition epsilon_closure :: "EpsilonNFA \<Rightarrow> StatePtr list \<Rightarrow> StatePtr list" where
  "epsilon_closure A sts = sts"

definition ENFA_accepts :: "EpsilonNFA \<Rightarrow> SymbolPtr list \<Rightarrow> bool" where
  "ENFA_accepts A word = False"

text \<open>\<open>to_deterministic\<close> returns \<open>nullptr\<close>: there is no automaton behind the result.\<close>

definition to_deterministic :: "EpsilonNFA \<Rightarrow> DeterministicFiniteAutomaton option" where
  "to_deterministic A = None"

text \<open>
  \<open>N.to_deterministic()->accepts(word)\<close>: the call has a value only when the pointer
  returned is not null.
\<close>

definition to_deterministic_accepts :: "EpsilonNFA \<Rightarrow> SymbolPtr list \<Rightarrow> bool option" where
  "to_deterministic_accepts A word = map_option (\<lambda>D. DFA_accepts D word) (to_deterministic A)"


section \<open>Sequences of builder operations\<close>

datatype ENFA_op =
    AddTransition StatePtr SymbolPtr StatePtr
  | AddStartState StatePtr
  | AddFinalState StatePtr
  | AddEpsilonTransition StatePtr StatePtr

fun ENFA_apply :: "EpsilonNFA \<Rightarrow> ENFA_op \<Rightarrow> EpsilonNFA" where
  "ENFA_apply A (AddTransition f s t) = NFA_add_transition f s t A"
| "ENFA_apply A (AddStartState q) = add_start_state q A"
| "ENFA_apply A (AddFinalState q) = add_final_state q A"
| "ENFA_apply A (AddEpsilonTransition f t) = add_epsilon_transition f t A"

definition ENFA_build :: "EpsilonNFA \<Rightarrow> ENFA_op list \<Rightarrow> EpsilonNFA" where
  "ENFA_build A ops = foldl ENFA_apply A ops"

text \<open>
  The deterministic class has its own \<open>add_transition\<close> and \<open>set_start_state\<close> and inherits
  \<open>add_start_state\<close> and \<open>add_final_state\<close>; the base-class \<open>add_transition\<close> is still
  reachable through a reference to the base class.
\<close>

datatype DFA_op =
    DFA_AddTransition StatePtr SymbolPtr StatePtr
  | DFA_SetStartState StatePtr
  | DFA_AddStartState StatePtr
  | DFA_AddFinalState StatePtr
  | DFA_BaseAddTransition StatePtr SymbolPtr StatePtr

fun DFA_apply :: "DeterministicFiniteAutomaton \<Rightarrow> DFA_op \<Rightarrow> DeterministicFiniteAutomaton" where
  "DFA_apply D (DFA_AddTransition f s t) = DFA_add_transition f s t D"
| "DFA_apply D (DFA_SetStartState q) = set_start_state q D"
| "DFA_apply D (DFA_AddStartState q) = add_start_state q D"
| "DFA_apply D (DFA_AddFinalState q) = add_final_state q D"
| "DFA_apply D (DFA_BaseAddTransition f s t) = NFA_add_transition f s t D"

definition DFA_build :: "DeterministicFiniteAutomaton \<Rightarrow> DFA_op list \<Rightarrow> DeterministicFiniteAutomaton" where
  "DFA_build D ops = foldl DFA_apply D ops"


section \<open>Equality of Epsilon objects\<close>

text \<open>
  \<open>finite_automaton::Epsilon\<close> declares two operators of its own, which hide the one of
  \<open>Symbol\<close>: against an \<open>Epsilon\<close> the answer is always true, against a \<open>Symbol\<close> it is the
  outcome of \<open>dynamic_cast<const Epsilon*>\<close>, that is, whether the dynamic class of the
  argument is \<open>Epsilon\<close>.
\<close>

definition Epsilon_eq_Epsilon :: "Symbol \<Rightarrow> Symbol \<Rightarrow> bool" where
  "Epsilon_eq_Epsilon x other = True"

definition Epsilon_eq_Symbol :: "Symbol \<Rightarrow> Symbol \<Rightarrow> bool" where
  "Epsilon_eq_Symbol x other = (other = Epsilon)"

text \<open>
  None of the operators is virtual, so the operator that an expression \<open>x == y\<close> calls is
  chosen from the static types of the operands: a left operand of static type \<open>Epsilon\<close>
  selects one of the two operators of \<open>Epsilon\<close> by the static type of the right operand;
  a left operand of static type \<open>Symbol\<close> (a plain symbol, or any object reached through
  a \<open>SymbolPtr\<close>) selects \<open>Symbol::operator==\<close>.
\<close>

datatype static_class = StaticSymbol | StaticEpsilon

fun FA_equals :: "static_class \<Rightarrow> Symbol \<Rightarrow> static_class \<Rightarrow> Symbol \<Rightarrow> bool" where
  "FA_equals StaticEpsilon x StaticEpsilon y = Epsilon_eq_Epsilon x y"
| "FA_equals StaticEpsilon x StaticSymbol y = Epsilon_eq_Symbol x y"
| "FA_equals StaticSymbol x sy y = Symbol_eq x y"


section \<open>Regular expressions\<close>

text \<open>The classes of regex\_objects.h; the tree is immutable, so children are stored directly.\<close>

datatype RegexObject =
    RE_Symbol string
  | RE_Epsilon
  | EmptyLanguage
  | Concatenation RegexObject RegexObject
  | RE_Union RegexObject RegexObject
  | KleeneStar RegexObject

datatype RegexParsingException = RegexParsingException string

datatype Regex = Regex (root: RegexObject)

text \<open>
  \<open>Regex::parse\<close> as it stands in regex.cpp: the empty string gives \<open>Epsilon\<close>, every other
  string gives a \<open>Symbol\<close> of its first character (\<open>regex.substr(0, 1)\<close>). No path throws.
\<close>

definition parse :: "string \<Rightarrow> RegexParsingException + RegexObject" where
  "parse regex = (if regex = [] then Inr RE_Epsilon else Inr (RE_Symbol (take 1 regex)))"

text \<open>The constructor \<open>Regex(const std::string&)\<close> initialises \<open>root_\<close> with \<open>parse(regex)\<close>.\<close>

definition Regex_of_string :: "string \<Rightarrow> RegexParsingException + Regex" where
  "Regex_of_string regex = (case parse regex of Inl e \<Rightarrow> Inl e | Inr r \<Rightarrow> Inr (Regex r))"


section \<open>Grammar objects\<close>

text \<open>
  \<open>CFGObject\<close> and its subclasses \<open>Variable\<close>, \<open>Terminal\<close> and \<open>Epsilon\<close>. A \<open>VariablePtr\<close>
  or \<open>TerminalPtr\<close> converts to a \<open>CFGObjectPtr\<close> with the same address;
  \<open>dynamic_pointer_cast\<close> goes back when the dynamic class allows it.
\<close>

datatype Variable = Variable (Variable_value: string)

datatype Terminal = Terminal (Terminal_value: string)

datatype CFGObject = VariableObject Variable | TerminalObject Terminal | EpsilonObject

fun CFGObject_value :: "CFGObject \<Rightarrow> string" where
  "CFGObject_value (VariableObject v) = Variable_value v"
| "CFGObject_value (TerminalObject t) = Terminal_value t"
| "CFGObject_value EpsilonObject = epsilon_text"

text \<open>\<open>CFGObject::operator==\<close>: not virtual, compares \<open>value_\<close>.\<close>

definition CFGObject_eq :: "CFGObject \<Rightarrow> CFGObject \<Rightarrow> bool" where
  "CFGObject_eq x other = (CFGObject_value x = CFGObject_value other)"

text \<open>\<open>cfg::Epsilon::operator==(const CFGObject&)\<close>: the dynamic class of the argument.\<close>

definition CFG_Epsilon_eq_CFGObject :: "CFGObject \<Rightarrow> CFGObject \<Rightarrow> bool" where
  "CFG_Epsilon_eq_CFGObject x other = (other = EpsilonObject)"

type_synonym CFGObjectPtr = "CFGObject shared_ptr"
type_synonym VariablePtr = "Variable shared_ptr"
type_synonym TerminalPtr = "Terminal shared_ptr"

definition variable_object :: "VariablePtr \<Rightarrow> CFGObjectPtr" where
  "variable_object p = SharedPtr (addr p) (VariableObject (deref p))"

definition terminal_object :: "TerminalPtr \<Rightarrow> CFGObjectPtr" where
  "terminal_object p = SharedPtr (addr p) (TerminalObject (deref p))"

fun as_terminal :: "CFGObjectPtr \<Rightarrow> TerminalPtr option" where
  "as_terminal (SharedPtr a (TerminalObject t)) = Some (SharedPtr a t)"
| "as_terminal p = None"

fun as_variable :: "CFGObjectPtr \<Rightarrow> VariablePtr option" where
  "as_variable (SharedPtr a (VariableObject v)) = Some (SharedPtr a v)"
| "as_variable p = None"


section \<open>Production\<close>

record Production =
  head :: VariablePtr
  body :: "CFGObjectPtr list"

text \<open>The constructor erases the \<open>Epsilon\<close> objects from the body unless told otherwise.\<close>

definition Production_new :: "VariablePtr \<Rightarrow> CFGObjectPtr list \<Rightarrow> bool \<Rightarrow> Production" where
  "Production_new h b filtering =
     \<lparr>head = h, body = (if filtering then filter (\<lambda>obj. deref obj \<noteq> EpsilonObject) b else b)\<rparr>"

type_synonym ProductionPtr = "Production shared_ptr"


section \<open>CFG\<close>

text \<open>
  The fields of \<open>class CFG\<close>. \<open>normal_form_\<close> points to another grammar, so the class is a
  datatype; the three caches are \<open>None\<close> for \<open>nullptr\<close> and \<open>std::nullopt\<close>.
\<close>

datatype CFG = CFG
  (variables: "VariablePtr list")
  (terminals: "TerminalPtr list")
  (start_symbol: "VariablePtr option")
  (productions: "ProductionPtr list")
  (normal_form: "CFG shared_ptr option")
  (generating_symbols: "CFGObjectPtr list option")
  (nullable_symbols: "CFGObjectPtr list option")
  (impacts: "(CFGObjectPtr \<times> (VariablePtr \<times> int) list) list")
  (remaining_lists: "(VariablePtr \<times> int list) list")
  (added_impacts: "VariablePtr list")

text \<open>\<open>initialize_production_in_cfg\<close>: fold the head and the body into the two sets.\<close>

fun initialize_body :: "CFGObjectPtr list \<Rightarrow> VariablePtr list \<times> TerminalPtr list
    \<Rightarrow> VariablePtr list \<times> TerminalPtr list" where
  "initialize_body [] (vs, ts) = (vs, ts)"
| "initialize_body (cfg_object # rest) (vs, ts) =
     (case as_terminal cfg_object of
        Some terminal \<Rightarrow> initialize_body rest (vs, set_insert terminal ts)
      | None \<Rightarrow>
          (case as_variable cfg_object of
             Some variable \<Rightarrow> initialize_body rest (set_insert variable vs, ts)
           | None \<Rightarrow> initialize_body rest (vs, ts)))"

definition initialize_production_in_cfg :: "ProductionPtr \<Rightarrow> VariablePtr list \<times> TerminalPtr list
    \<Rightarrow> VariablePtr list \<times> TerminalPtr list" where
  "initialize_production_in_cfg production vt =
     initialize_body (body (deref production))
       (set_insert (head (deref production)) (fst vt), snd vt)"

fun initialize_productions :: "ProductionPtr list \<Rightarrow> VariablePtr list \<times> TerminalPtr list
    \<Rightarrow> VariablePtr list \<times> TerminalPtr list" where
  "initialize_productions [] vt = vt"
| "initialize_productions (production # rest) vt =
     initialize_productions rest (initialize_production_in_cfg production vt)"

definition CFG_new :: "VariablePtr list \<Rightarrow> TerminalPtr list \<Rightarrow> VariablePtr option
    \<Rightarrow> ProductionPtr list \<Rightarrow> CFG" where
  "CFG_new vs ts start ps =
     (let vs0 = (case start of Some s \<Rightarrow> set_insert s vs | None \<Rightarrow> vs);
          vt = initialize_productions ps (vs0, ts)
      in CFG (fst vt) (snd vt) start ps None None None [] [] [])"


section \<open>Generating and nullable symbols\<close>

text \<open>
  \<open>CFG::get_generating_or_nullable\<close> as cfg.cpp defines it (the class body in cfg.h only
  holds a placeholder for the same member). \<open>g_symbols\<close> is an
  \<open>unordered_set<CFGObjectPtr>\<close> (membership is pointer equality) and \<open>to_process\<close> a
  queue. First the seeding loop over the terminals.
\<close>

fun add_terminals :: "TerminalPtr list \<Rightarrow> CFGObjectPtr list \<times> CFGObjectPtr list
    \<Rightarrow> CFGObjectPtr list \<times> CFGObjectPtr list" where
  "add_terminals [] (g_symbols, to_process) = (g_symbols, to_process)"
| "add_terminals (terminal # rest) (g_symbols, to_process) =
     add_terminals rest
       (set_insert (terminal_object terminal) g_symbols, to_process @ [terminal_object terminal])"

text \<open>The loop over the body with its \<open>break\<close>.\<close>

fun all_in_g_symbols :: "CFGObjectPtr list \<Rightarrow> CFGObjectPtr list \<Rightarrow> bool" where
  "all_in_g_symbols g_symbols [] = True"
| "all_in_g_symbols g_symbols (symbol # rest) =
     (if symbol \<notin> set g_symbols then False else all_in_g_symbols g_symbols rest)"

text \<open>One pass of the \<open>for\<close> loop over all productions, for one popped symbol.\<close>

fun scan_productions :: "ProductionPtr list \<Rightarrow> CFGObjectPtr list \<times> CFGObjectPtr list
    \<Rightarrow> CFGObjectPtr list \<times> CFGObjectPtr list" where
  "scan_productions [] (g_symbols, to_process) = (g_symbols, to_process)"
| "scan_productions (production # rest) (g_symbols, to_process) =
     (if variable_object (head (deref production)) \<in> set g_symbols
      then scan_productions rest (g_symbols, to_process)
      else if all_in_g_symbols g_symbols (body (deref production))
      then scan_productions rest
             (set_insert (variable_object (head (deref production))) g_symbols,
              to_process @ [variable_object (head (deref production))])
      else scan_productions rest (g_symbols, to_process))"

text \<open>The number of productions whose head is not yet in \<open>g_symbols\<close>.\<close>

definition pending :: "ProductionPtr list \<Rightarrow> CFGObjectPtr list \<Rightarrow> nat" where
  "pending ps g_symbols =
     length (filter (\<lambda>p. variable_object (head (deref p)) \<notin> set g_symbols) ps)"


text \<open>
  What one pass does to the two containers: the set only grows, the queue is extended at
  its end, and a pass that pushes nothing changes nothing. These facts give the measure
  for the \<open>while\<close> loop.
\<close>

lemma scan_productions_extends:
  "scan_productions ps (g, q) = (g', q') \<Longrightarrow> set g \<subseteq> set g' \<and> (\<exists>added. q' = q @ added)"
proof (induction ps arbitrary: g q)
  case Nil
  then show ?case by simp
next
  case (Cons p ps)
  let ?h = "variable_object (head (deref p))"
  show ?case
  proof (cases "?h \<notin> set g \<and> all_in_g_symbols g (body (deref p))")
    case True
    with Cons.prems have "scan_productions ps (set_insert ?h g, q @ [?h]) = (g', q')"
      by simp
    from Cons.IH [OF this] show ?thesis
      by (auto simp: set_set_insert)
  next
    case False
    with Cons.prems have "scan_productions ps (g, q) = (g', q')"
      by (auto split: if_splits)
    from Cons.IH [OF this] show ?thesis .
  qed
qed

lemma scan_productions_progress:
  "scan_productions ps (g, q) = (g', q') \<Longrightarrow> q' \<noteq> q
    \<Longrightarrow> \<exists>p\<in>set ps. variable_object (head (deref p)) \<notin> set g
          \<and> variable_object (head (deref p)) \<in> set g'"
proof (induction ps arbitrary: g q)
  case Nil
  then show ?case by simp
next
  case (Cons p ps)
  let ?h = "variable_object (head (deref p))"
  show ?case
  proof (cases "?h \<notin> set g \<and> all_in_g_symbols g (body (deref p))")
    case True
    with Cons.prems have "scan_productions ps (set_insert ?h g, q @ [?h]) = (g', q')"
      by simp
    from scan_productions_extends [OF this] have "?h \<in> set g'"
      by (auto simp: set_set_insert)
    with True show ?thesis by auto
  next
    case False
    with Cons.prems have "scan_productions ps (g, q) = (g', q')"
      by (auto split: if_splits)
    from Cons.IH [OF this Cons.prems(2)] show ?thesis by auto
  qed
qed

lemma scan_productions_same_queue:
  "scan_productions ps (g, q) = (g', q') \<Longrightarrow> q' = q
    \<Longrightarrow> g' = g \<and> (\<forall>p\<in>set ps. variable_object (head (deref p)) \<in> set g
                       \<or> \<not> all_in_g_symbols g (body (deref p)))"
proof (induction ps arbitrary: g q)
  case Nil
  then show ?case by simp
next
  case (Cons p ps)
  let ?h = "variable_object (head (deref p))"
  show ?case
  proof (cases "?h \<notin> set g \<and> all_in_g_symbols g (body (deref p))")
    case True
    with Cons.prems have "scan_productions ps (set_insert ?h g, q @ [?h]) = (g', q')"
      by simp
    from scan_productions_extends [OF this] Cons.prems(2) have False
      by auto
    then show ?thesis ..
  next
    case False
    with Cons.prems have "scan_productions ps (g, q) = (g', q')"
      by (auto split: if_splits)
    from Cons.IH [OF this Cons.prems(2)] False show ?thesis by auto
  qed
qed

lemma pending_less:
  assumes sub: "set g \<subseteq> set g'"
    and p: "p \<in> set ps" "variable_object (head (deref p)) \<notin> set g"
      "variable_object (head (deref p)) \<in> set g'"
  shows "pending ps g' < pending ps g"
proof -
  let ?P = "\<lambda>p. variable_object (head (deref p)) \<notin> set g"
  let ?Q = "\<lambda>p. variable_object (head (deref p)) \<notin> set g'"
  have eq: "filter ?Q ps = filter ?Q (filter ?P ps)"
    using sub by (auto intro: filter_cong)
  have "p \<in> set (filter ?P ps)" "\<not> ?Q p"
    using p by auto
  then have "length (filter ?Q (filter ?P ps)) < length (filter ?P ps)"
    by (rule length_filter_less)
  with eq show ?thesis
    unfolding pending_def by simp
qed

lemma scan_productions_decreases:
  assumes scan: "scan_productions ps (g, q) = (g', q')"
  shows "((ps, g', q'), (ps, g, current # q))
      \<in> inv_image (less_than <*lex*> less_than) (\<lambda>(ps, g, q). (pending ps g, length q))"
proof (cases "q' = q")
  case True
  with scan_productions_same_queue [OF scan] show ?thesis by simp
next
  case False
  from scan_productions_progress [OF scan False] scan_productions_extends [OF scan]
  have "pending ps g' < pending ps g"
    by (blast intro: pending_less)
  then show ?thesis by simp
qed

function process_symbols :: "ProductionPtr list \<Rightarrow> CFGObjectPtr list \<Rightarrow> CFGObjectPtr list
    \<Rightarrow> CFGObjectPtr list" where
  "process_symbols ps g_symbols [] = g_symbols"
| "process_symbols ps g_symbols (current # to_process) =
     (case scan_productions ps (g_symbols, to_process) of
        (g_symbols', to_process') \<Rightarrow> process_symbols ps g_symbols' to_process')"
  by pat_completeness auto
termination
  apply (relation "inv_image (less_than <*lex*> less_than) (\<lambda>(ps, g, q). (pending ps g, length q))")
   apply (intro wf_inv_image wf_lex_prod wf_less_than)
  subgoal premises prems for ps g_symbols current to_process x y
    using scan_productions_decreases [OF prems [symmetric], of current]
    by (simp add: prems [symmetric])
  done

text \<open>
  \<open>get_generating_or_nullable\<close>; \<open>a\<close> is the address of the \<open>Epsilon\<close> object the function
  allocates. The result is \<open>g_symbols\<close> after \<open>erase(epsilon)\<close>.
\<close>

definition get_generating_or_nullable :: "nat \<Rightarrow> bool \<Rightarrow> CFG \<Rightarrow> CFGObjectPtr list" where
  "get_generating_or_nullable a nullable G =
     (let epsilon = SharedPtr a EpsilonObject;
          seeded = (if \<not> nullable then add_terminals (terminals G) ([epsilon], [epsilon])
                    else ([epsilon], [epsilon]))
      in removeAll epsilon (process_symbols (productions G) (fst seeded) (snd seeded)))"

text \<open>Assignment to one of the two cache fields.\<close>

fun set_generating_symbols :: "CFGObjectPtr list option \<Rightarrow> CFG \<Rightarrow> CFG" where
  "set_generating_symbols v (CFG vs ts s ps nf gs ns im rl ai) = CFG vs ts s ps nf v ns im rl ai"

fun set_nullable_symbols :: "CFGObjectPtr list option \<Rightarrow> CFG \<Rightarrow> CFG" where
  "set_nullable_symbols v (CFG vs ts s ps nf gs ns im rl ai) = CFG vs ts s ps nf gs v im rl ai"

text \<open>
  The public analyses are non-const member functions: each returns its result together
  with the grammar object as the call leaves it.
\<close>

definition get_generating_symbols :: "nat \<Rightarrow> CFG \<Rightarrow> CFGObjectPtr list \<times> CFG" where
  "get_generating_symbols a G =
     (case generating_symbols G of
        None \<Rightarrow>
          (let r = get_generating_or_nullable a False G in (r, set_generating_symbols (Some r) G))
      | Some r \<Rightarrow> (r, G))"

definition get_nullable_symbols :: "nat \<Rightarrow> CFG \<Rightarrow> CFGObjectPtr list \<times> CFG" where
  "get_nullable_symbols a G =
     (case nullable_symbols G of
        None \<Rightarrow>
          (let r = get_generating_or_nullable a True G in (r, set_nullable_symbols (Some r) G))
      | Some r \<Rightarrow> (r, G))"

text \<open>\<open>to_normal_form\<close> is a placeholder that returns \<open>nullptr\<close>.\<close>

definition to_normal_form :: "CFG \<Rightarrow> CFG shared_ptr option \<times> CFG" where
  "to_normal_form G = (None, G)"

text \<open>
  The fixpoint reading of the analysis: the seed, and one application of the rule "a
  production whose whole body lies in the set contributes its head".
\<close>

definition seed_symbols :: "nat \<Rightarrow> bool \<Rightarrow> CFG \<Rightarrow> CFGObjectPtr set" where
  "seed_symbols a nullable G =
     insert (SharedPtr a EpsilonObject)
       (if nullable then {} else terminal_object ` set (terminals G))"



text \<open>The grammar of the documentation: S -> A B, A -> a A | a, B -> b B | b.\<close>

definition var_S :: VariablePtr where "var_S = SharedPtr 10 (Variable ''S'')"
definition var_A :: VariablePtr where "var_A = SharedPtr 11 (Variable ''A'')"
definition var_B :: VariablePtr where "var_B = SharedPtr 12 (Variable ''B'')"
definition term_a :: TerminalPtr where "term_a = SharedPtr 13 (Terminal ''a'')"
definition term_b :: TerminalPtr where "term_b = SharedPtr 14 (Terminal ''b'')"

definition example_productions :: "ProductionPtr list" where
  "example_productions =
     [SharedPtr 15 (Production_new var_S [variable_object var_A, variable_object var_B] True),
      SharedPtr 16 (Production_new var_A [terminal_object term_a, variable_object var_A] True),
      SharedPtr 17 (Production_new var_A [terminal_object term_a] True),
      SharedPtr 18 (Production_new var_B [terminal_object term_b, variable_object var_B] True),
      SharedPtr 19 (Production_new var_B [terminal_object term_b] True)]"

definition example_cfg :: CFG where
  "example_cfg = CFG_new [var_S, var_A, var_B] [term_a, term_b] (Some var_S) example_productions"


text \<open>A grammar with nullable variables: S -> A B, A -> epsilon, B -> A A | b.\<close>

definition nullable_productions :: "ProductionPtr list" where
  "nullable_productions =
     [SharedPtr 21 (Production_new var_S [variable_object var_A, variable_object var_B] True),
      SharedPtr 22 (Production_new var_A [SharedPtr 30 EpsilonObject] True),
      SharedPtr 23 (Production_new var_B [variable_object var_A, variable_object var_A] True),
      SharedPtr 24 (Production_new var_B [terminal_object term_b] True)]"

definition nullable_cfg :: CFG where
  "nullable_cfg = CFG_new [] [] (Some var_S) nullable_productions"


section \<open>Properties of the deterministic transition function\<close>

lemma PairEqual_refl: "PairEqual k k"
  by (simp add: PairEqual_def State_eq_def Symbol_eq_def)

lemma PairEqual_sym: "PairEqual k k' \<Longrightarrow> PairEqual k' k"
  by (simp add: PairEqual_def State_eq_def Symbol_eq_def)

lemma PairEqual_trans: "PairEqual k k' \<Longrightarrow> PairEqual k' k'' \<Longrightarrow> PairEqual k k''"
  by (simp add: PairEqual_def State_eq_def Symbol_eq_def)

lemma map_find_assign:
  "map_find k (map_assign k' v m) = (if PairEqual k' k then Some v else map_find k m)"
proof (induction m)
  case Nil
  show ?case by simp
next
  case (Cons e m)
  obtain k0 v0 where e: "e = (k0, v0)" by (cases e)
  show ?case
  proof (cases "PairEqual k0 k'")
    case True
    then have "PairEqual k0 k \<longleftrightarrow> PairEqual k' k"
      using PairEqual_trans PairEqual_sym by blast
    with True show ?thesis by (simp add: e)
  next
    case False
    show ?thesis
    proof (cases "PairEqual k0 k")
      case k0k: True
      have "\<not> PairEqual k' k"
        using False k0k PairEqual_trans PairEqual_sym by blast
      with False k0k show ?thesis by (simp add: e)
    next
      case nk: False
      with False show ?thesis by (simp add: e Cons.IH)
    qed
  qed
qed

lemma get_next_state_add_transition:
  "get_next_state (TF_add_transition f s t tf) q a =
     (if PairEqual (f, s) (q, a) then Some t else get_next_state tf q a)"
  by (simp add: get_next_state_def TF_add_transition_def map_find_assign)

lemma get_next_state_add_transitions:
  "get_next_state (TF_add_transitions calls tf) q a =
     (case latest_target (q, a) calls of
        Some t \<Rightarrow> Some t
      | None \<Rightarrow> get_next_state tf q a)"
proof (induction calls arbitrary: tf)
  case Nil
  show ?case by simp
next
  case (Cons c calls)
  obtain f s t where c: "c = (f, s, t)" by (cases c)
  show ?case
    by (simp add: c Cons.IH get_next_state_add_transition split: option.split)
qed

text \<open>
  C10. After any sequence of \<open>add_transition\<close> calls on any deterministic transition
  function, \<open>get_next_state\<close> returns for every (state, symbol) pair the target of the
  most recent call for that pair; a pair that no call named keeps what the function held
  before. A repeated pair overwrites the earlier target and raises nothing, and the
  result is a single optional state.
\<close>

theorem C10_add_transition_overwrites:
  "get_next_state (TF_add_transitions calls tf) q a =
     (case latest_target (q, a) calls of
        Some t \<Rightarrow> Some t
      | None \<Rightarrow> get_next_state tf q a)
   \<and> get_next_state (TF_add_transition q a t2 (TF_add_transition q a t1 tf)) q a = Some t2"
  by (simp add: get_next_state_add_transitions get_next_state_add_transition PairEqual_refl)

theorem C10_overwrite_witness:
  "get_next_state (TF_add_transitions [(q0, sym_a, q1), (q1, sym_b, q2), (q0, sym_a, q2)] []) q0 sym_a
     = Some q2
   \<and> get_next_state (TF_add_transitions [(q0, sym_a, q1), (q1, sym_b, q2), (q0, sym_a, q2)] []) q1 sym_a
     = None"
  using C10_add_transition_overwrites [of "[(q0, sym_a, q1), (q1, sym_b, q2), (q0, sym_a, q2)]" "[]" q0 sym_a]
    C10_add_transition_overwrites [of "[(q0, sym_a, q1), (q1, sym_b, q2), (q0, sym_a, q2)]" "[]" q1 sym_a]
  by (simp add: PairEqual_def State_eq_def Symbol_eq_def get_next_state_def q0_def q1_def q2_def
      sym_a_def sym_b_def)

section \<open>The documented example automaton\<close>

lemma example_dfa_value:
  "example_dfa =
     \<lparr>states = [q0, q2, q1], input_symbols = [sym_a, sym_b], transition_function = [],
      start_states = [q0], final_states = [q2],
      transition_function_dfa =
        [((q0, sym_a), q1), ((q0, sym_b), q0), ((q1, sym_a), q1), ((q1, sym_b), q2),
         ((q2, sym_a), q1), ((q2, sym_b), q0)]\<rparr>"
  by (simp add: example_dfa_def DFA_new_def set_start_state_def add_final_state_def
      DFA_add_transition_def TF_add_transition_def set_insert_def PairEqual_def State_eq_def
      Symbol_eq_def q0_def q1_def q2_def sym_a_def sym_b_def)

lemma example_next:
  "get_next_state (transition_function_dfa example_dfa) q (SharedPtr n (Symbol s)) =
     (if State_value (deref q) = ''q0'' \<and> s = ''a'' then Some q1
      else if State_value (deref q) = ''q0'' \<and> s = ''b'' then Some q0
      else if State_value (deref q) = ''q1'' \<and> s = ''a'' then Some q1
      else if State_value (deref q) = ''q1'' \<and> s = ''b'' then Some q2
      else if State_value (deref q) = ''q2'' \<and> s = ''a'' then Some q1
      else if State_value (deref q) = ''q2'' \<and> s = ''b'' then Some q0
      else None)"
  by (simp add: example_dfa_value get_next_state_def PairEqual_def State_eq_def
      Symbol_eq_def q0_def q1_def q2_def sym_a_def sym_b_def)

text \<open>
  C3. The automaton with states q0, q1, q2, start state q0, final state q2 and the six
  listed transitions rejects the empty word, accepts a b, accepts b a b and rejects b,
  whatever addresses the symbols built from the strings of the word get.
\<close>

theorem C3_example_dfa_accepts:
  "set (states example_dfa) = {q0, q1, q2} \<and> start_states example_dfa = [q0]
   \<and> final_states example_dfa = [q2]
   \<and> transition_function_dfa example_dfa =
        [((q0, sym_a), q1), ((q0, sym_b), q0), ((q1, sym_a), q1), ((q1, sym_b), q2),
         ((q2, sym_a), q1), ((q2, sym_b), q0)]
   \<and> DFA_accepts_strings a example_dfa [] = False
   \<and> DFA_accepts_strings a example_dfa [''a'', ''b''] = True
   \<and> DFA_accepts_strings a example_dfa [''b'', ''a'', ''b''] = True
   \<and> DFA_accepts_strings a example_dfa [''b''] = False"
proof -
  have st: "set (states example_dfa) = {q0, q1, q2}" "start_states example_dfa = [q0]"
      "final_states example_dfa = [q2]"
    by (auto simp: example_dfa_value)
  have v: "State_value (deref q0) = ''q0''" "State_value (deref q1) = ''q1''"
      "State_value (deref q2) = ''q2''"
    by (simp_all add: q0_def q1_def q2_def)
  have ne: "q0 \<noteq> q2" "q1 \<noteq> q2"
    by (simp_all add: q0_def q1_def q2_def)
  have tf: "transition_function_dfa example_dfa =
        [((q0, sym_a), q1), ((q0, sym_b), q0), ((q1, sym_a), q1), ((q1, sym_b), q2),
         ((q2, sym_a), q1), ((q2, sym_b), q0)]"
    by (simp add: example_dfa_value)
  have "DFA_accepts_strings a example_dfa [] = False"
      "DFA_accepts_strings a example_dfa [''a'', ''b''] = True"
      "DFA_accepts_strings a example_dfa [''b'', ''a'', ''b''] = True"
      "DFA_accepts_strings a example_dfa [''b''] = False"
    by (simp_all add: st DFA_accepts_strings_def DFA_accepts_def example_next v ne)
  with st tf show ?thesis
    by simp
qed


section \<open>Nondeterministic acceptance\<close>








section \<open>Completion and complement\<close>


lemma map_find_in: "map_find k m = Some v \<Longrightarrow> v \<in> snd ` set m"
  by (induction m) (force split: if_splits)+




lemma add_non_final_fields:
  "transition_function_dfa (add_non_final sts finals R) = transition_function_dfa R
   \<and> start_states (add_non_final sts finals R) = start_states R
   \<and> input_symbols (add_non_final sts finals R) = input_symbols R
   \<and> transition_function (add_non_final sts finals R) = transition_function R
   \<and> set (final_states (add_non_final sts finals R)) = set (final_states R) \<union> (set sts - set finals)
   \<and> set (states (add_non_final sts finals R)) = set (states R) \<union> (set sts - set finals)"
  by (induction sts arbitrary: R) (auto simp: add_final_state_def set_set_insert)


text \<open>
  For any receiver, complete or not, the complement is built on the completed automaton.
\<close>

lemma make_complete_keeps:
  "start_states (make_complete a D) = start_states D
   \<and> final_states (make_complete a D) = final_states D
   \<and> input_symbols (make_complete a D) = input_symbols D"
  by (simp add: make_complete_def Let_def)

lemma complement_of_completed:
  "transition_function_dfa (complement a D) = transition_function_dfa (make_complete a D)
   \<and> start_states (complement a D) = take 1 (start_states D)
   \<and> set (final_states (complement a D)) = set (states (make_complete a D)) - set (final_states D)
   \<and> set (states (complement a D)) = set (states (make_complete a D)) \<union> set (take 1 (start_states D))"
proof -
  let ?C = "make_complete a D"
  let ?R = "DFA_new (states ?C) (input_symbols ?C) (Some (transition_function_dfa ?C)) (start_state ?C) []"
  have comp: "complement a D = add_non_final (states ?C) (final_states ?C) ?R"
    by (simp add: complement_def Let_def)
  have R: "transition_function_dfa ?R = transition_function_dfa ?C"
      "start_states ?R = take 1 (start_states D)" "final_states ?R = []"
      "set (states ?R) = set (states ?C) \<union> set (take 1 (start_states D))"
    by (auto simp: DFA_new_def start_state_def make_complete_keeps set_set_insert
        split: list.splits)
  show ?thesis
    using add_non_final_fields [of "states ?C" "final_states ?C" ?R] R
    by (auto simp: comp make_complete_keeps)
qed







section \<open>Builder operations and the state-set invariant\<close>

lemma map_assign_entry:
  "(k', v') \<in> set (map_assign k v m)
    \<Longrightarrow> (k' = k \<or> k' \<in> fst ` set m) \<and> (v' = v \<or> v' \<in> snd ` set m)"
  by (induction m) (force split: if_splits)+

lemma map_assign_sources:
  "(fst \<circ> fst) ` set (map_assign k v m) \<subseteq> insert (fst k) ((fst \<circ> fst) ` set m)"
proof
  fix x
  assume "x \<in> (fst \<circ> fst) ` set (map_assign k v m)"
  then obtain k' v' where e: "(k', v') \<in> set (map_assign k v m)" and x: "x = fst k'"
    by auto
  from map_assign_entry [OF e] have "k' = k \<or> k' \<in> fst ` set m"
    by simp
  with x show "x \<in> insert (fst k) ((fst \<circ> fst) ` set m)"
    by force
qed

lemma map_assign_values: "snd ` set (map_assign k v m) \<subseteq> insert v (snd ` set m)"
  using map_assign_entry by fastforce

lemma set_TF_states: "set (TF_states tf) = (fst \<circ> fst) ` set tf \<union> snd ` set tf"
  unfolding TF_states_def by force

lemma set_NTF_states: "set (NTF_states tf) = (fst \<circ> fst) ` set tf \<union> (\<Union>e\<in>set tf. set (snd e))"
  unfolding NTF_states_def by force

lemma TF_states_add_transition:
  "set (TF_states (TF_add_transition f s t tf)) \<subseteq> {f, t} \<union> set (TF_states tf)"
proof -
  have "(fst \<circ> fst) ` set (map_assign (f, s) t tf) \<subseteq> insert f ((fst \<circ> fst) ` set tf)"
    using map_assign_sources [of "(f, s)" t tf] by simp
  moreover have "snd ` set (map_assign (f, s) t tf) \<subseteq> insert t (snd ` set tf)"
    by (rule map_assign_values)
  ultimately show ?thesis
    unfolding set_TF_states TF_add_transition_def by blast
qed

lemma get_next_states_subset: "set (get_next_states tf f s) \<subseteq> (\<Union>e\<in>set tf. set (snd e))"
proof (cases "map_find (f, s) tf")
  case None
  then show ?thesis by (simp add: get_next_states_def)
next
  case (Some targets)
  then have "targets \<in> snd ` set tf" by (rule map_find_in)
  with Some show ?thesis by (auto simp: get_next_states_def)
qed

lemma NTF_states_add_transition:
  "set (NTF_states (NTF_add_transition f s t tf)) \<subseteq> {f, t} \<union> set (NTF_states tf)"
proof -
  let ?v = "set_insert t (get_next_states tf f s)"
  have k: "(fst \<circ> fst) ` set (map_assign (f, s) ?v tf) \<subseteq> insert f ((fst \<circ> fst) ` set tf)"
    using map_assign_sources [of "(f, s)" ?v tf] by simp
  have "snd ` set (map_assign (f, s) ?v tf) \<subseteq> insert ?v (snd ` set tf)"
    by (rule map_assign_values)
  then have "(\<Union>e\<in>set (map_assign (f, s) ?v tf). set (snd e)) \<subseteq> set ?v \<union> (\<Union>e\<in>set tf. set (snd e))"
    by fastforce
  also have "\<dots> \<subseteq> {t} \<union> (\<Union>e\<in>set tf. set (snd e))"
    using get_next_states_subset [of tf f s] by (auto simp: set_set_insert)
  finally show ?thesis
    using k unfolding set_NTF_states NTF_add_transition_def by blast
qed

lemma NFA_invariant_iff:
  "NFA_invariant A \<longleftrightarrow>
     set (NTF_states (transition_function A)) \<union> set (start_states A) \<union> set (final_states A)
       \<subseteq> set (states A)"
  by (auto simp: NFA_invariant_def list_all_iff)

lemma DFA_invariant_iff:
  "DFA_invariant D \<longleftrightarrow>
     NFA_invariant D \<and> set (TF_states (transition_function_dfa D)) \<subseteq> set (states D)"
  by (auto simp: DFA_invariant_def list_all_iff)

lemma NFA_add_transition_invariant:
  "NFA_invariant A \<Longrightarrow> NFA_invariant (NFA_add_transition f s t A)"
  using NTF_states_add_transition [of f s t "transition_function A"]
  by (auto simp: NFA_invariant_iff NFA_add_transition_def set_set_insert)

lemma add_start_state_invariant: "NFA_invariant A \<Longrightarrow> NFA_invariant (add_start_state q A)"
  by (auto simp: NFA_invariant_iff add_start_state_def set_set_insert)

lemma add_final_state_invariant: "NFA_invariant A \<Longrightarrow> NFA_invariant (add_final_state q A)"
  by (auto simp: NFA_invariant_iff add_final_state_def set_set_insert)

lemma add_epsilon_transition_invariant:
  "NFA_invariant A \<Longrightarrow> NFA_invariant (add_epsilon_transition f t A)"
  using NTF_states_add_transition [of f "epsilon A" t "transition_function A"]
  by (auto simp: NFA_invariant_iff add_epsilon_transition_def set_set_insert)

lemma ENFA_apply_invariant: "NFA_invariant A \<Longrightarrow> NFA_invariant (ENFA_apply A op)"
  by (cases op)
     (simp_all add: NFA_add_transition_invariant add_start_state_invariant
        add_final_state_invariant add_epsilon_transition_invariant)

lemma DFA_apply_invariant: "DFA_invariant D \<Longrightarrow> DFA_invariant (DFA_apply D op)"
proof (cases op)
  case (DFA_AddTransition f s t)
  assume "DFA_invariant D"
  then show ?thesis
    using TF_states_add_transition [of f s t "transition_function_dfa D"]
    by (auto simp: DFA_AddTransition DFA_invariant_iff NFA_invariant_iff DFA_add_transition_def
        set_set_insert)
next
  case (DFA_SetStartState q)
  assume "DFA_invariant D"
  then show ?thesis
    by (auto simp: DFA_SetStartState DFA_invariant_iff NFA_invariant_iff set_start_state_def
        set_set_insert)
next
  case (DFA_AddStartState q)
  assume "DFA_invariant D"
  then show ?thesis
    using add_start_state_invariant [of D q]
    by (auto simp: DFA_AddStartState DFA_invariant_iff add_start_state_def set_set_insert)
next
  case (DFA_AddFinalState q)
  assume "DFA_invariant D"
  then show ?thesis
    using add_final_state_invariant [of D q]
    by (auto simp: DFA_AddFinalState DFA_invariant_iff add_final_state_def set_set_insert)
next
  case (DFA_BaseAddTransition f s t)
  assume "DFA_invariant D"
  then show ?thesis
    using NFA_add_transition_invariant [of D f s t]
    by (auto simp: DFA_BaseAddTransition DFA_invariant_iff NFA_add_transition_def set_set_insert)
qed

lemma ENFA_build_invariant: "NFA_invariant A \<Longrightarrow> NFA_invariant (ENFA_build A ops)"
  unfolding ENFA_build_def
  by (induction ops arbitrary: A) (simp_all add: ENFA_apply_invariant)

lemma DFA_build_invariant: "DFA_invariant D \<Longrightarrow> DFA_invariant (DFA_build D ops)"
  unfolding DFA_build_def
  by (induction ops arbitrary: D) (simp_all add: DFA_apply_invariant)


text \<open>
  C8. The default-constructed automata satisfy the state-set invariant, and
  every sequence of builder operations (\<open>add_transition\<close>, \<open>add_start_state\<close>,
  \<open>add_final_state\<close>, \<open>add_epsilon_transition\<close>, and for the deterministic class its own
  \<open>add_transition\<close> and \<open>set_start_state\<close>) applied to an automaton that satisfies the
  invariant gives an automaton that satisfies it.
\<close>

theorem C8_builder_operations_keep_invariant:
  "(NFA_invariant A \<longrightarrow> NFA_invariant (ENFA_build A ops))
   \<and> (DFA_invariant D \<longrightarrow> DFA_invariant (DFA_build D dops))
   \<and> NFA_invariant (EpsilonNFA_new a [] [] None [] [])
   \<and> DFA_invariant (DFA_new [] [] None None [])"
proof -
  have "NFA_invariant (EpsilonNFA_new a [] [] None [] [])"
    by (simp add: NFA_invariant_def EpsilonNFA_new_def NTF_states_def)
  moreover have "DFA_invariant (DFA_new [] [] None None [])"
    by (simp add: DFA_invariant_def NFA_invariant_def DFA_new_def NTF_states_def TF_states_def)
  ultimately show ?thesis
    using ENFA_build_invariant [of A ops] DFA_build_invariant [of D dops] by blast
qed

theorem C8_builder_witness:
  "NFA_invariant (EpsilonNFA_new 9 [] [] None [] [])
   \<and> NFA_invariant (ENFA_build (EpsilonNFA_new 9 [] [] None [] [])
        [AddTransition q0 sym_a q1, AddStartState q0, AddFinalState q1, AddEpsilonTransition q1 q2])
   \<and> DFA_invariant (DFA_new [] [] None None [])
   \<and> DFA_invariant (DFA_build (DFA_new [] [] None None [])
        [DFA_SetStartState q0, DFA_AddFinalState q2, DFA_AddTransition q0 sym_a q1])"
  using C8_builder_operations_keep_invariant [of "EpsilonNFA_new 9 [] [] None [] []"
      "[AddTransition q0 sym_a q1, AddStartState q0, AddFinalState q1, AddEpsilonTransition q1 q2]"
      "DFA_new [] [] None None []"
      "[DFA_SetStartState q0, DFA_AddFinalState q2, DFA_AddTransition q0 sym_a q1]" 9]
  by simp

text \<open>
  Without the invariant at the outset the conclusion of C8 fails: the constructor stores
  the sets it is given, so an automaton constructed with start state q0 and an empty
  state set does not contain q0 in its state set, and no builder operation adds it.
\<close>

theorem C8_constructed_automaton_counterexample:
  "\<not> NFA_invariant (ENFA_build (EpsilonNFA_new 9 [] [] None [q0] [])
        [AddTransition q1 sym_a q2, AddStartState q1, AddFinalState q2, AddEpsilonTransition q2 q1])"
  by (simp add: NFA_invariant_def ENFA_build_def EpsilonNFA_new_def NFA_add_transition_def
      add_start_state_def add_final_state_def add_epsilon_transition_def set_insert_def
      q0_def q1_def q2_def)


section \<open>Determinization\<close>

text \<open>
  C1. \<open>EpsilonNFA::to_deterministic\<close> is documented to return a deterministic automaton
  equivalent to the receiver, and returns \<open>nullptr\<close>. For the automaton with the single
  state q0, both start and final, and the empty word there is no deterministic automaton
  whose answer could be compared; \<open>EpsilonNFA::accepts\<close> itself answers false although
  the start state is final.
\<close>

theorem C1_to_deterministic_returns_null:
  "to_deterministic (EpsilonNFA_new 9 [q0] [] None [q0] [q0]) = None
   \<and> to_deterministic_accepts (EpsilonNFA_new 9 [q0] [] None [q0] [q0]) [] = None
   \<and> ENFA_accepts (EpsilonNFA_new 9 [q0] [] None [q0] [q0]) [] = False
   \<and> NFA_accepts (EpsilonNFA_new 9 [q0] [] None [q0] [q0]) [] = True"
  by (simp add: to_deterministic_def to_deterministic_accepts_def ENFA_accepts_def
      NFA_accepts_def EpsilonNFA_new_def)


section \<open>Parsing a regular expression\<close>

text \<open>
  C9. \<open>Regex::parse\<close> is a placeholder: it never reports an error. An unmatched
  parenthesis, an operator in operand position and a trailing operator each produce a
  one-symbol tree built from the first character.
\<close>

theorem C9_parse_never_fails:
  "Regex_of_string ''(a'' = Inr (Regex (RE_Symbol ''(''))
   \<and> Regex_of_string ''+a'' = Inr (Regex (RE_Symbol ''+''))
   \<and> Regex_of_string ''a+'' = Inr (Regex (RE_Symbol ''a''))
   \<and> (\<exists>r. Regex_of_string regex = Inr r)"
  by (simp add: Regex_of_string_def parse_def)


section \<open>Epsilon against a plain symbol with the same text\<close>

lemma Epsilon_receiver_distinguishes:
  "FA_equals StaticEpsilon Epsilon StaticEpsilon Epsilon
   \<and> \<not> FA_equals StaticEpsilon Epsilon StaticSymbol (Symbol v)"
  by (simp add: Epsilon_eq_Epsilon_def Epsilon_eq_Symbol_def)

text \<open>
  C6. With a plain symbol as the left operand, or through two \<open>SymbolPtr\<close> as in the key
  comparison of the transition functions, the operator called is \<open>Symbol::operator==\<close>,
  which compares the text: the plain symbol whose text is that of epsilon and an
  \<open>Epsilon\<close> object are equal, and an epsilon transition and a transition on that plain
  symbol are the same key. The grammar objects behave alike: a terminal with that text
  equals the grammar's \<open>Epsilon\<close> under \<open>CFGObject::operator==\<close>.
\<close>

theorem C6_plain_symbol_equals_epsilon:
  "FA_equals StaticSymbol (Symbol epsilon_text) StaticEpsilon Epsilon = True
   \<and> FA_equals StaticSymbol Epsilon StaticSymbol (Symbol epsilon_text) = True
   \<and> FA_equals StaticEpsilon Epsilon StaticSymbol (Symbol epsilon_text) = False
   \<and> PairEqual (q0, SharedPtr 7 Epsilon) (q0, SharedPtr 8 (Symbol epsilon_text)) = True
   \<and> CFGObject_eq (TerminalObject (Terminal epsilon_text)) EpsilonObject = True
   \<and> CFG_Epsilon_eq_CFGObject EpsilonObject (TerminalObject (Terminal epsilon_text)) = False"
  by (simp add: Symbol_eq_def Epsilon_eq_Symbol_def PairEqual_def State_eq_def CFGObject_eq_def
      CFG_Epsilon_eq_CFGObject_def)


section \<open>The worklist analysis computes a least fixpoint\<close>









lemma add_terminals_seed:
  "add_terminals ts (g, q) = (g', q')
    \<Longrightarrow> set g' = set g \<union> terminal_object ` set ts \<and> (q \<noteq> [] \<longrightarrow> q' \<noteq> [])"
  by (induction ts arbitrary: g q) (auto simp: set_set_insert)

lemma seeded:
  assumes "seeded = (if \<not> nullable then add_terminals (terminals G) ([SharedPtr a EpsilonObject], [SharedPtr a EpsilonObject])
                    else ([SharedPtr a EpsilonObject], [SharedPtr a EpsilonObject]))"
  shows "set (fst seeded) = seed_symbols a nullable G \<and> snd seeded \<noteq> []"
proof (cases nullable)
  case True
  with assms show ?thesis by (simp add: seed_symbols_def)
next
  case False
  obtain g' q' where at: "add_terminals (terminals G) ([SharedPtr a EpsilonObject], [SharedPtr a EpsilonObject]) = (g', q')"
    by (cases "add_terminals (terminals G) ([SharedPtr a EpsilonObject], [SharedPtr a EpsilonObject])")
  from add_terminals_seed [OF at] False assms at show ?thesis
    by (auto simp: seed_symbols_def)
qed




section \<open>The two example grammars\<close>

lemmas cfg_example_defs = CFG_new_def example_productions_def nullable_productions_def
  Production_new_def initialize_production_in_cfg_def set_insert_def variable_object_def
  terminal_object_def var_S_def var_A_def var_B_def term_a_def term_b_def

lemma example_cfg_value:
  "example_cfg =
     CFG [var_S, var_A, var_B] [term_a, term_b] (Some var_S) example_productions
       None None None [] [] []"
  by (simp add: example_cfg_def cfg_example_defs)

lemma nullable_cfg_value:
  "nullable_cfg =
     CFG [var_S, var_A, var_B] [term_b] (Some var_S) nullable_productions
       None None None [] [] []"
  by (simp add: nullable_cfg_def cfg_example_defs)

lemma example_generating:
  "get_generating_or_nullable 20 False example_cfg =
     [terminal_object term_a, terminal_object term_b, variable_object var_A,
      variable_object var_B, variable_object var_S]"
  by (simp add: get_generating_or_nullable_def example_cfg_value)
     (simp add: cfg_example_defs)

lemma example_nullable: "get_generating_or_nullable 20 True example_cfg = []"
  by (simp add: get_generating_or_nullable_def example_cfg_value)
     (simp add: cfg_example_defs)

lemma nullable_cfg_nullable:
  "get_generating_or_nullable 20 True nullable_cfg =
     [variable_object var_A, variable_object var_B, variable_object var_S]"
  by (simp add: get_generating_or_nullable_def nullable_cfg_value)
     (simp add: cfg_example_defs)



section \<open>The analyses and the fields of the grammar\<close>

text \<open>
  C7. \<open>get_nullable_symbols\<close> and \<open>get_generating_symbols\<close> leave the
  variables, the terminals, the start symbol, the productions, the normal-form pointer,
  the other cache and the impact tables of the grammar unchanged, and store what they
  return in the cache field \<open>nullable_symbols_\<close> respectively \<open>generating_symbols_\<close>: the
  result of the worklist analysis when the field was empty, the cached value otherwise.
  \<open>to_normal_form\<close> leaves every field unchanged.
\<close>

theorem C7_analyses_fill_their_cache:
  "(case get_nullable_symbols a G of (r, G') \<Rightarrow>
      variables G' = variables G \<and> terminals G' = terminals G
      \<and> start_symbol G' = start_symbol G \<and> productions G' = productions G
      \<and> normal_form G' = normal_form G \<and> generating_symbols G' = generating_symbols G
      \<and> impacts G' = impacts G \<and> remaining_lists G' = remaining_lists G
      \<and> added_impacts G' = added_impacts G
      \<and> nullable_symbols G' = Some r
      \<and> r = (case nullable_symbols G of
                None \<Rightarrow> get_generating_or_nullable a True G | Some cached \<Rightarrow> cached))
   \<and> (case get_generating_symbols a G of (r, G') \<Rightarrow>
      variables G' = variables G \<and> terminals G' = terminals G
      \<and> start_symbol G' = start_symbol G \<and> productions G' = productions G
      \<and> normal_form G' = normal_form G \<and> nullable_symbols G' = nullable_symbols G
      \<and> impacts G' = impacts G \<and> remaining_lists G' = remaining_lists G
      \<and> added_impacts G' = added_impacts G
      \<and> generating_symbols G' = Some r
      \<and> r = (case generating_symbols G of
                None \<Rightarrow> get_generating_or_nullable a False G | Some cached \<Rightarrow> cached))
   \<and> to_normal_form G = (None, G)"
  by (cases G)
     (simp add: get_nullable_symbols_def get_generating_symbols_def to_normal_form_def Let_def
        split: option.split)

theorem C7_cache_witness:
  "nullable_symbols (snd (get_nullable_symbols 20 nullable_cfg))
     = Some [variable_object var_A, variable_object var_B, variable_object var_S]
   \<and> productions (snd (get_nullable_symbols 20 nullable_cfg)) = nullable_productions
   \<and> generating_symbols (snd (get_generating_symbols 20 example_cfg))
     = Some [terminal_object term_a, terminal_object term_b, variable_object var_A,
         variable_object var_B, variable_object var_S]"
proof -
  have a: "nullable_symbols nullable_cfg = None" "productions nullable_cfg = nullable_productions"
      "generating_symbols example_cfg = None"
    by (simp_all add: nullable_cfg_value example_cfg_value)
  from C7_analyses_fill_their_cache [where a = 20 and G = nullable_cfg]
    C7_analyses_fill_their_cache [where a = 20 and G = example_cfg]
  show ?thesis
    by (simp add: case_prod_beta a nullable_cfg_nullable example_generating)
qed

text \<open>
  The grammar object after the call is not the grammar object before it: the cache field
  goes from empty to the set of nullable symbols.
\<close>

theorem C7_cache_field_counterexample:
  "nullable_symbols nullable_cfg = None
   \<and> nullable_symbols (snd (get_nullable_symbols 20 nullable_cfg))
      = Some [variable_object var_A, variable_object var_B, variable_object var_S]
   \<and> snd (get_nullable_symbols 20 nullable_cfg) \<noteq> nullable_cfg"
proof -
  have n: "nullable_symbols nullable_cfg = None"
    by (simp add: nullable_cfg_value)
  have s: "nullable_symbols (snd (get_nullable_symbols 20 nullable_cfg))
      = Some [variable_object var_A, variable_object var_B, variable_object var_S]"
    by (simp add: get_nullable_symbols_def n Let_def nullable_cfg_nullable)
       (simp add: nullable_cfg_value)
  from n s have "snd (get_nullable_symbols 20 nullable_cfg) \<noteq> nullable_cfg"
    by auto
  with n s show ?thesis by blast
qed

end
